theory Spec2Isabelle
  imports Main "HOL-Library.Sublist"
begin

section \<open>The icon converter \<^verbatim>\<open>tools/convert-icon.py\<close>\<close>

text \<open>
  The script is one function and an entry point:
  \<^verbatim>\<open>
  def convert_to_ico(source, target):
      if not os.path.exists(source):
          print(f"Source file {source} not found.")
          return

      img = Image.open(source)
      img.save(target, format='ICO', sizes=[(256, 256), (128, 128), (64, 64), (48, 48), (32, 32), (16, 16)])
      print(f"Created {target} from {source}")

  if __name__ == "__main__":
      convert_to_ico('icon-512.png', 'app.ico')
  \<close>
  Everything it does is an effect on the outside world: one existence check, one
  \<^verbatim>\<open>Image.open\<close>, one \<^verbatim>\<open>save\<close> and one \<^verbatim>\<open>print\<close>. The model threads a world (the file
  system and the ordered log of these effects) through the function, and returns either
  the exception that escaped (\<open>Inl\<close>) or the Python value returned (\<open>Inr\<close>).
\<close>

subsection \<open>Data\<close>

type_synonym path = string

text \<open>A requested resolution: (width, height).\<close>

type_synonym size = "nat \<times> nat"

text \<open>The Python values a call can hand back to its caller.\<close>

datatype pyval = PyNone | PyBool bool | PyInt int | PyStr string

text \<open>
  The effects of the script, in the order they happen: the call of \<^verbatim>\<open>os.path.exists\<close> on
  a path, the call of \<^verbatim>\<open>Image.open\<close> on a path (the only read of a file), the call of
  \<^verbatim>\<open>save\<close> with its target, format and sizes (the only write of a file), and a call of
  \<^verbatim>\<open>print\<close> with the text it is given.
\<close>

datatype event =
    Exists path
  | Open path
  | Save path string "size list"
  | Print string

record 'node world =
  files :: "path \<rightharpoonup> 'node"
  trace :: "event list"

text \<open>
  \<^verbatim>\<open>os\<close> and \<^verbatim>\<open>PIL.Image\<close> are not code of this repository: the three functions the script
  calls are parameters of the model. \<open>'img\<close> is the library's in-memory image, \<open>'node\<close>
  what the file system holds at a path, \<open>'err\<close> the exceptions the library raises.
  \<^verbatim>\<open>Image.open\<close> either raises or returns an image; \<^verbatim>\<open>save\<close> returns the file system it
  leaves behind, also when it raises (\<open>Some e\<close>).
\<close>

record ('img, 'node, 'err) imaging =
  os_path_exists :: "(path \<rightharpoonup> 'node) \<Rightarrow> path \<Rightarrow> bool"
  Image_open :: "(path \<rightharpoonup> 'node) \<Rightarrow> path \<Rightarrow> 'err + 'img"
  Image_save :: "'img \<Rightarrow> path \<Rightarrow> string \<Rightarrow> size list \<Rightarrow> (path \<rightharpoonup> 'node)
                  \<Rightarrow> 'err option \<times> (path \<rightharpoonup> 'node)"

subsection \<open>The function\<close>

definition log :: "event \<Rightarrow> 'node world \<Rightarrow> 'node world" where
  "log e w = w\<lparr>trace := trace w @ [e]\<rparr>"

text \<open>
  \<open>convert_to_ico\<close>, statement by statement. \<^verbatim>\<open>print\<close> is taken to succeed (it appends to
  the log); a bare \<^verbatim>\<open>return\<close> and the end of the body both return \<^verbatim>\<open>None\<close>.
\<close>

definition convert_to_ico ::
  "('img, 'node, 'err) imaging \<Rightarrow> path \<Rightarrow> path \<Rightarrow> 'node world \<Rightarrow> ('err + pyval) \<times> 'node world"
where
  "convert_to_ico L source target w0 =
    (let w1 = log (Exists source) w0 in
     if \<not> os_path_exists L (files w1) source then
       (Inr PyNone, log (Print (''Source file '' @ source @ '' not found.'')) w1)
     else
       (let w2 = log (Open source) w1 in
        case Image_open L (files w2) source of
          Inl e \<Rightarrow> (Inl e, w2)
        | Inr img \<Rightarrow>
            (let w3 = log (Save target ''ICO''
                        [(256, 256), (128, 128), (64, 64), (48, 48), (32, 32), (16, 16)]) w2 in
             case Image_save L img target ''ICO''
                    [(256, 256), (128, 128), (64, 64), (48, 48), (32, 32), (16, 16)] (files w3) of
               (Some e, fs) \<Rightarrow> (Inl e, w3\<lparr>files := fs\<rparr>)
             | (None, fs) \<Rightarrow>
                 (Inr PyNone,
                  log (Print (''Created '' @ target @ '' from '' @ source)) (w3\<lparr>files := fs\<rparr>)))))"

text \<open>
  The module body after the definitions: when the module runs as the main module it calls
  the function with two literals and drops the value; an exception of the call ends the
  run. \<open>name\<close> is \<^verbatim>\<open>__name__\<close> and \<open>argv\<close> the command line, which the script never reads.
\<close>

definition run_module ::
  "('img, 'node, 'err) imaging \<Rightarrow> string \<Rightarrow> string list \<Rightarrow> 'node world \<Rightarrow> ('err + unit) \<times> 'node world"
where
  "run_module L name argv w =
    (if name = ''__main__'' then
       (case convert_to_ico L ''icon-512.png'' ''app.ico'' w of
          (Inl e, w') \<Rightarrow> (Inl e, w')
        | (Inr v, w') \<Rightarrow> (Inr (), w'))
     else (Inr (), w))"

subsection \<open>Reading the log\<close>

fun printed :: "event list \<Rightarrow> string list" where
  "printed [] = []"
| "printed (Print s # es) = s # printed es"
| "printed (e # es) = printed es"

fun existence_checks :: "event list \<Rightarrow> path list" where
  "existence_checks [] = []"
| "existence_checks (Exists p # es) = p # existence_checks es"
| "existence_checks (e # es) = existence_checks es"

fun reads :: "event list \<Rightarrow> path list" where
  "reads [] = []"
| "reads (Open p # es) = p # reads es"
| "reads (e # es) = reads es"

fun save_requests :: "event list \<Rightarrow> (path \<times> string \<times> size list) list" where
  "save_requests [] = []"
| "save_requests (Save p f ss # es) = (p, f, ss) # save_requests es"
| "save_requests (e # es) = save_requests es"

subsection \<open>A property of the library that one result assumes\<close>


subsection \<open>A small file system and image library to run the function on\<close>

text \<open>
  Concrete inputs need a concrete library. This one holds square pictures only (a side
  length and a number standing for the picture's content), directories, icon containers
  and files that are no image. Its \<^verbatim>\<open>save\<close> follows what Pillow documents for the ICO
  format: ``any sizes bigger than the original size or 256 will be ignored'', and each
  size that is kept gets one image, the picture scaled down to it. Opening a container
  gives its largest image; opening a directory or a file that is no image raises.
\<close>

datatype raster = Square (side: nat) (content: nat)

datatype node = Directory | Picture raster | Icon "raster list" | Other

datatype oserror = FileNotFoundError | IsADirectoryError | UnidentifiedImageError

definition fits :: "raster \<Rightarrow> size \<Rightarrow> bool" where
  "fits img s \<longleftrightarrow> fst s \<le> side img \<and> snd s \<le> side img \<and> fst s \<le> 256 \<and> snd s \<le> 256"

definition thumbnail :: "raster \<Rightarrow> size \<Rightarrow> raster" where
  "thumbnail img s = Square (min (fst s) (snd s)) (content img)"

fun largest :: "raster list \<Rightarrow> raster option" where
  "largest [] = None"
| "largest (r # rs) =
    (case largest rs of
       None \<Rightarrow> Some r
     | Some m \<Rightarrow> if side r < side m then Some m else Some r)"

definition pillow_like :: "(raster, node, oserror) imaging" where
  "pillow_like =
    \<lparr>os_path_exists = (\<lambda>fs p. fs p \<noteq> None),
     Image_open = (\<lambda>fs p.
       case fs p of
         None \<Rightarrow> Inl FileNotFoundError
       | Some Directory \<Rightarrow> Inl IsADirectoryError
       | Some (Picture r) \<Rightarrow> Inr r
       | Some (Icon rs) \<Rightarrow>
           (case largest rs of None \<Rightarrow> Inl UnidentifiedImageError | Some r \<Rightarrow> Inr r)
       | Some Other \<Rightarrow> Inl UnidentifiedImageError),
     Image_save = (\<lambda>img p f ss fs.
       if fs p = Some Directory then (Some IsADirectoryError, fs)
       else if f = ''ICO'' then (None, fs(p \<mapsto> Icon (map (thumbnail img) (filter (fits img) ss))))
       else (None, fs(p \<mapsto> Picture img)))\<rparr>"


text \<open>
  Six worlds, each with an empty log: no file at all; the 512 pixel picture the script
  is written for; a 100 pixel picture; a directory; a file that is no image; and the
  512 pixel picture beside a directory named like the target.
\<close>

definition empty_world :: "node world" where
  "empty_world = \<lparr>files = Map.empty, trace = []\<rparr>"

definition icon_world :: "node world" where
  "icon_world = \<lparr>files = [''icon-512.png'' \<mapsto> Picture (Square 512 1)], trace = []\<rparr>"


definition dir_world :: "node world" where
  "dir_world = \<lparr>files = [''assets'' \<mapsto> Directory], trace = []\<rparr>"



subsection \<open>The four paths through the function\<close>

lemma convert_missing:
  assumes "\<not> os_path_exists L (files w) source"
  shows "convert_to_ico L source target w =
    (Inr PyNone,
     w\<lparr>trace := trace w @ [Exists source, Print (''Source file '' @ source @ '' not found.'')]\<rparr>)"
  using assms by (simp add: convert_to_ico_def log_def Let_def)

lemma convert_open_raises:
  assumes "os_path_exists L (files w) source"
    and "Image_open L (files w) source = Inl e"
  shows "convert_to_ico L source target w =
    (Inl e, w\<lparr>trace := trace w @ [Exists source, Open source]\<rparr>)"
  using assms by (simp add: convert_to_ico_def log_def Let_def)



lemma printed_append: "printed (xs @ ys) = printed xs @ printed ys"
  by (induction xs rule: printed.induct) simp_all

lemma existence_checks_append:
  "existence_checks (xs @ ys) = existence_checks xs @ existence_checks ys"
  by (induction xs rule: existence_checks.induct) simp_all

lemma reads_append: "reads (xs @ ys) = reads xs @ reads ys"
  by (induction xs rule: reads.induct) simp_all

lemma save_requests_append: "save_requests (xs @ ys) = save_requests xs @ save_requests ys"
  by (induction xs rule: save_requests.induct) simp_all


subsection \<open>What a call adds to the log, and what the messages name\<close>

lemma convert_checks_once:
  "existence_checks (trace (snd (convert_to_ico L source target w)))
     = existence_checks (trace w) @ [source]"
  by (simp add: convert_to_ico_def log_def Let_def existence_checks_append
      split: sum.splits prod.splits option.splits)

lemma message_names_source:
  "sublist source (''Source file '' @ source @ '' not found.'')"
  by (rule sublist_appendI)



section \<open>Properties of the converter\<close>

subsection \<open>C1: the icon written for a valid source\<close>




subsection \<open>C2: a source that does not exist\<close>

text \<open>
  C2. When \<^verbatim>\<open>os.path.exists(source)\<close> is false, \<open>convert_to_ico\<close> returns normally (no
  exception, the value \<^verbatim>\<open>None\<close>); after the existence check its only effect is one
  \<^verbatim>\<open>print\<close>: it opens no file, requests no save, leaves the file system as it was, and
  the one message it prints contains the source path.
\<close>

theorem C2_missing_source:
  assumes "\<not> os_path_exists L (files w) source"
  shows "convert_to_ico L source target w =
      (Inr PyNone,
       w\<lparr>trace := trace w @ [Exists source, Print (''Source file '' @ source @ '' not found.'')]\<rparr>)
    \<and> files (snd (convert_to_ico L source target w)) = files w
    \<and> reads (trace (snd (convert_to_ico L source target w))) = reads (trace w)
    \<and> save_requests (trace (snd (convert_to_ico L source target w))) = save_requests (trace w)
    \<and> printed (trace (snd (convert_to_ico L source target w)))
        = printed (trace w) @ [''Source file '' @ source @ '' not found.'']
    \<and> sublist source (''Source file '' @ source @ '' not found.'')"
proof -
  have run: "convert_to_ico L source target w =
      (Inr PyNone,
       w\<lparr>trace := trace w @ [Exists source, Print (''Source file '' @ source @ '' not found.'')]\<rparr>)"
    using assms by (rule convert_missing)
  have "sublist source (''Source file '' @ source @ '' not found.'')"
    by (rule message_names_source)
  with run show ?thesis
    by (simp add: reads_append save_requests_append printed_append)
qed

theorem C2_missing_source_witness:
  "\<not> os_path_exists pillow_like (files empty_world) ''icon-512.png''
   \<and> convert_to_ico pillow_like ''icon-512.png'' ''app.ico'' empty_world =
      (Inr PyNone,
       empty_world\<lparr>trace := [Exists ''icon-512.png'', Print ''Source file icon-512.png not found.'']\<rparr>)
   \<and> files (snd (convert_to_ico pillow_like ''icon-512.png'' ''app.ico'' empty_world)) = Map.empty
   \<and> printed (trace (snd (convert_to_ico pillow_like ''icon-512.png'' ''app.ico'' empty_world)))
       = [''Source file icon-512.png not found.'']"
proof -
  have h: "\<not> os_path_exists pillow_like (files empty_world) ''icon-512.png''"
    by (simp add: pillow_like_def empty_world_def)
  show ?thesis
    using h C2_missing_source [OF h, of "''app.ico''"]
    by (simp add: empty_world_def)
qed

subsection \<open>C3: when the call raises\<close>



subsection \<open>C5: calling twice\<close>



subsection \<open>C6: the success path\<close>



subsection \<open>C7: the entry point\<close>

text \<open>
  C7. Run as the main module, whatever the command line, the script does what one call
  \<open>convert_to_ico 'icon-512.png' 'app.ico'\<close> does and nothing more: the same world
  afterwards, the same exception if one escapes, and exactly one existence check, on
  \<^verbatim>\<open>icon-512.png\<close>.
\<close>

theorem C7_main_calls_once:
  "fst (run_module L ''__main__'' argv w)
      = map_sum id (\<lambda>v. ()) (fst (convert_to_ico L ''icon-512.png'' ''app.ico'' w))
   \<and> snd (run_module L ''__main__'' argv w)
      = snd (convert_to_ico L ''icon-512.png'' ''app.ico'' w)
   \<and> existence_checks (trace (snd (run_module L ''__main__'' argv w)))
      = existence_checks (trace w) @ [''icon-512.png'']"
proof -
  have "snd (run_module L ''__main__'' argv w)
      = snd (convert_to_ico L ''icon-512.png'' ''app.ico'' w)"
    by (simp add: run_module_def split: prod.splits sum.splits)
  moreover have "fst (run_module L ''__main__'' argv w)
      = map_sum id (\<lambda>v. ()) (fst (convert_to_ico L ''icon-512.png'' ''app.ico'' w))"
    by (simp add: run_module_def split: prod.splits sum.splits)
  ultimately show ?thesis
    by (simp add: convert_checks_once)
qed

theorem C7_main_calls_once_witness:
  "fst (run_module pillow_like ''__main__'' [''convert-icon.py'', ''--size'', ''64''] icon_world)
      = Inr ()
   \<and> trace (snd (run_module pillow_like ''__main__'' [''convert-icon.py'', ''--size'', ''64''] icon_world))
      = [Exists ''icon-512.png'', Open ''icon-512.png'',
         Save ''app.ico'' ''ICO'' [(256, 256), (128, 128), (64, 64), (48, 48), (32, 32), (16, 16)],
         Print ''Created app.ico from icon-512.png'']"
  using C7_main_calls_once [of pillow_like "[''convert-icon.py'', ''--size'', ''64'']" icon_world]
  by (simp add: convert_to_ico_def log_def Let_def pillow_like_def icon_world_def)

subsection \<open>C8: a source that exists and cannot be read as an image\<close>

text \<open>
  C8. When the source exists and \<^verbatim>\<open>Image.open\<close> raises on it (a directory, for one), the
  call passes the existence check and ends with the exception of the open step: it
  prints nothing, in particular not the missing-file message, and does not return
  normally.
\<close>

theorem C8_existing_unreadable_source:
  assumes "os_path_exists L (files w) source"
    and "Image_open L (files w) source = Inl e"
  shows "convert_to_ico L source target w =
      (Inl e, w\<lparr>trace := trace w @ [Exists source, Open source]\<rparr>)
    \<and> printed (trace (snd (convert_to_ico L source target w))) = printed (trace w)
    \<and> fst (convert_to_ico L source target w) \<noteq> Inr PyNone"
  using convert_open_raises [OF assms, of target]
  by (simp add: printed_append)

theorem C8_existing_unreadable_source_witness:
  "os_path_exists pillow_like (files dir_world) ''assets''
   \<and> Image_open pillow_like (files dir_world) ''assets'' = Inl IsADirectoryError
   \<and> convert_to_ico pillow_like ''assets'' ''app.ico'' dir_world =
       (Inl IsADirectoryError, dir_world\<lparr>trace := [Exists ''assets'', Open ''assets'']\<rparr>)
   \<and> printed (trace (snd (convert_to_ico pillow_like ''assets'' ''app.ico'' dir_world))) = []"
proof -
  have h: "os_path_exists pillow_like (files dir_world) ''assets''"
    by (simp add: pillow_like_def dir_world_def)
  have o: "Image_open pillow_like (files dir_world) ''assets'' = Inl IsADirectoryError"
    by (simp add: pillow_like_def dir_world_def)
  show ?thesis
    using h o C8_existing_unreadable_source [OF h o, of "''app.ico''"]
    by (simp add: dir_world_def)
qed

subsection \<open>C9: the value returned\<close>

text \<open>
  C9. Whenever \<open>convert_to_ico\<close> returns normally it returns \<^verbatim>\<open>None\<close>: on the
  missing-source path, on the success path, and these are the only paths that return.
\<close>

theorem C9_returns_None:
  "(\<forall>v. fst (convert_to_ico L source target w) = Inr v \<longrightarrow> v = PyNone)
   \<and> (\<not> os_path_exists L (files w) source \<longrightarrow>
        fst (convert_to_ico L source target w) = Inr PyNone)
   \<and> (os_path_exists L (files w) source
        \<and> (\<exists>img. Image_open L (files w) source = Inr img
             \<and> fst (Image_save L img target ''ICO''
                  [(256, 256), (128, 128), (64, 64), (48, 48), (32, 32), (16, 16)] (files w)) = None)
        \<longrightarrow> fst (convert_to_ico L source target w) = Inr PyNone)"
  by (auto simp add: convert_to_ico_def log_def Let_def
      split: sum.splits prod.splits option.splits)

theorem C9_returns_None_witness:
  "\<not> os_path_exists pillow_like (files empty_world) ''icon-512.png''
   \<and> fst (convert_to_ico pillow_like ''icon-512.png'' ''app.ico'' empty_world) = Inr PyNone
   \<and> os_path_exists pillow_like (files icon_world) ''icon-512.png''
   \<and> fst (convert_to_ico pillow_like ''icon-512.png'' ''app.ico'' icon_world) = Inr PyNone"
proof -
  have h0: "\<not> os_path_exists pillow_like (files empty_world) ''icon-512.png''"
    by (simp add: pillow_like_def empty_world_def)
  have h1: "os_path_exists pillow_like (files icon_world) ''icon-512.png''"
    by (simp add: pillow_like_def icon_world_def)
  have o1: "Image_open pillow_like (files icon_world) ''icon-512.png'' = Inr (Square 512 1)"
    by (simp add: pillow_like_def icon_world_def)
  have s1: "fst (Image_save pillow_like (Square 512 1) ''app.ico'' ''ICO''
      [(256, 256), (128, 128), (64, 64), (48, 48), (32, 32), (16, 16)] (files icon_world)) = None"
    by (simp add: pillow_like_def icon_world_def)
  show ?thesis
    using h0 h1 o1 s1
      C9_returns_None [of pillow_like "''icon-512.png''" "''app.ico''" empty_world]
      C9_returns_None [of pillow_like "''icon-512.png''" "''app.ico''" icon_world]
    by simp
qed

end
